theory Spec2Isabelle
  imports Complex_Main "HOL-Library.Word" "HOL-Library.AList"
begin

unbundle bit_operations_syntax

section \<open>Python strings\<close>

text \<open>
  A Python \<open>str\<close> is modelled as a \<open>string\<close>: one \<open>char\<close> per code point, so the
  texts covered are those whose code points are below 256. \<open>len\<close> is \<open>length\<close>.
\<close>

text \<open>\<open>s[start:end]\<close>: a negative index counts from the end, and both are clamped.\<close>

definition py_index :: "nat \<Rightarrow> int \<Rightarrow> nat" where
  "py_index n i = (if i < 0 then nat (max 0 (i + int n)) else min (nat i) n)"

definition py_slice :: "'a list \<Rightarrow> int \<Rightarrow> int \<Rightarrow> 'a list" where
  "py_slice s start end =
     (let lo = py_index (length s) start; hi = py_index (length s) end
      in take (hi - lo) (drop lo s))"

text \<open>\<open>s.rfind(sub)\<close>: the highest index at which \<open>sub\<close> occurs in \<open>s\<close>, or \<open>-1\<close>.\<close>

fun rfind_from :: "string \<Rightarrow> string \<Rightarrow> int \<Rightarrow> int \<Rightarrow> int" where
  "rfind_from sub [] i best = (if sub = [] then i else best)"
| "rfind_from sub (c # cs) i best =
     rfind_from sub cs (i + 1) (if take (length sub) (c # cs) = sub then i else best)"

definition rfind :: "string \<Rightarrow> string \<Rightarrow> int" where
  "rfind s sub = rfind_from sub s 0 (- 1)"

text \<open>\<open>str.isspace\<close> on the code points below 256, and \<open>s.strip()\<close>.\<close>

definition is_space :: "char \<Rightarrow> bool" where
  "is_space c = ((of_char c :: nat) \<in> {9, 10, 11, 12, 13, 28, 29, 30, 31, 32, 133, 160})"

definition strip :: "string \<Rightarrow> string" where
  "strip s = rev (dropWhile is_space (rev (dropWhile is_space s)))"

section \<open>MD5 digests\<close>

text \<open>
  \<open>hashlib.md5(s.encode()).hexdigest()\<close>: the UTF-8 encoding of the string, the MD5
  digest of those bytes (RFC 1321), and the digest written as 32 lower-case hex digits.
\<close>

type_synonym byte = "8 word"
type_synonym md5_state = "32 word \<times> 32 word \<times> 32 word \<times> 32 word"

definition utf8_encode :: "string \<Rightarrow> byte list" where
  "utf8_encode s =
     concat (map (\<lambda>c. let n = (of_char c :: nat)
                      in if n < 128 then [of_nat n]
                         else [of_nat (192 + n div 64), of_nat (128 + n mod 64)]) s)"

definition md5_shifts :: "nat list" where
  "md5_shifts =
     [7, 12, 17, 22, 7, 12, 17, 22, 7, 12, 17, 22, 7, 12, 17, 22,
      5, 9, 14, 20, 5, 9, 14, 20, 5, 9, 14, 20, 5, 9, 14, 20,
      4, 11, 16, 23, 4, 11, 16, 23, 4, 11, 16, 23, 4, 11, 16, 23,
      6, 10, 15, 21, 6, 10, 15, 21, 6, 10, 15, 21, 6, 10, 15, 21]"

definition md5_K :: "32 word list" where
  "md5_K =
     [0xd76aa478, 0xe8c7b756, 0x242070db, 0xc1bdceee,
      0xf57c0faf, 0x4787c62a, 0xa8304613, 0xfd469501,
      0x698098d8, 0x8b44f7af, 0xffff5bb1, 0x895cd7be,
      0x6b901122, 0xfd987193, 0xa679438e, 0x49b40821,
      0xf61e2562, 0xc040b340, 0x265e5a51, 0xe9b6c7aa,
      0xd62f105d, 0x02441453, 0xd8a1e681, 0xe7d3fbc8,
      0x21e1cde6, 0xc33707d6, 0xf4d50d87, 0x455a14ed,
      0xa9e3e905, 0xfcefa3f8, 0x676f02d9, 0x8d2a4c8a,
      0xfffa3942, 0x8771f681, 0x6d9d6122, 0xfde5380c,
      0xa4beea44, 0x4bdecfa9, 0xf6bb4b60, 0xbebfbc70,
      0x289b7ec6, 0xeaa127fa, 0xd4ef3085, 0x04881d05,
      0xd9d4d039, 0xe6db99e5, 0x1fa27cf8, 0xc4ac5665,
      0xf4292244, 0x432aff97, 0xab9423a7, 0xfc93a039,
      0x655b59c3, 0x8f0ccc92, 0xffeff47d, 0x85845dd1,
      0x6fa87e4f, 0xfe2ce6e0, 0xa3014314, 0x4e0811a1,
      0xf7537e82, 0xbd3af235, 0x2ad7d2bb, 0xeb86d391]"

definition le_bytes :: "nat \<Rightarrow> nat \<Rightarrow> byte list" where
  "le_bytes k n = map (\<lambda>i. of_nat (n div 256 ^ i)) [0..<k]"

definition md5_pad :: "byte list \<Rightarrow> byte list" where
  "md5_pad m =
     m @ [0x80] @ replicate ((119 - length m mod 64) mod 64) 0 @ le_bytes 8 (8 * length m)"

definition le_word :: "byte list \<Rightarrow> 32 word" where
  "le_word bs = foldr (\<lambda>b w. ucast b + push_bit 8 w) bs 0"

definition md5_words :: "byte list \<Rightarrow> 32 word list" where
  "md5_words block = map (\<lambda>i. le_word (take 4 (drop (4 * i) block))) [0..<16]"

definition md5_round :: "32 word list \<Rightarrow> md5_state \<Rightarrow> nat \<Rightarrow> md5_state" where
  "md5_round M st i =
     (case st of (a, b, c, d) \<Rightarrow>
        let f = (if i < 16 then (b AND c) OR (NOT b AND d)
                 else if i < 32 then (d AND b) OR (NOT d AND c)
                 else if i < 48 then b XOR c XOR d
                 else c XOR (b OR NOT d));
            g = (if i < 16 then i
                 else if i < 32 then (5 * i + 1) mod 16
                 else if i < 48 then (3 * i + 5) mod 16
                 else (7 * i) mod 16);
            f' = f + a + md5_K ! i + M ! g
        in (d, b + word_rotl (md5_shifts ! i) f', b, c))"

definition md5_block :: "md5_state \<Rightarrow> byte list \<Rightarrow> md5_state" where
  "md5_block st block =
     (case st of (a0, b0, c0, d0) \<Rightarrow>
        (case foldl (md5_round (md5_words block)) st [0..<64] of
           (a, b, c, d) \<Rightarrow> (a0 + a, b0 + b, c0 + c, d0 + d)))"

fun md5_blocks :: "nat \<Rightarrow> md5_state \<Rightarrow> byte list \<Rightarrow> md5_state" where
  "md5_blocks 0 st bs = st"
| "md5_blocks (Suc n) st bs = md5_blocks n (md5_block st (take 64 bs)) (drop 64 bs)"

definition md5_digest :: "byte list \<Rightarrow> byte list" where
  "md5_digest m =
     (let p = md5_pad m
      in case md5_blocks (length p div 64) (0x67452301, 0xefcdab89, 0x98badcfe, 0x10325476) p of
           (a, b, c, d) \<Rightarrow>
             concat (map (\<lambda>w. map (\<lambda>i. ucast (drop_bit (8 * i) w)) [0..<4]) [a, b, c, d]))"

definition hex_byte :: "byte \<Rightarrow> string" where
  "hex_byte b = [''0123456789abcdef'' ! (unat b div 16), ''0123456789abcdef'' ! (unat b mod 16)]"

definition md5_hexdigest :: "string \<Rightarrow> string" where
  "md5_hexdigest s = concat (map hex_byte (md5_digest (utf8_encode s)))"

text \<open>\<open>str(n)\<close> for a non-negative integer and for an integer.\<close>

function str_nat :: "nat \<Rightarrow> string" where
  "str_nat n =
     (if n < 10 then [char_of (48 + n)] else str_nat (n div 10) @ [char_of (48 + n mod 10)])"
  by pat_completeness auto
termination
  by (relation "measure (\<lambda>n. n)") simp_all

definition str_int :: "int \<Rightarrow> string" where
  "str_int i = (if i < 0 then CHR ''-'' # str_nat (nat (- i)) else str_nat (nat i))"

section \<open>Chunker: \<open>EmbeddingService.chunk_text\<close>\<close>

text \<open>
  One pass through the body of the \<open>while\<close> loop, from the window start \<open>start\<close>:
  the chunk appended and the next value of \<open>start\<close>.
\<close>

definition chunk_step :: "string \<Rightarrow> int \<Rightarrow> int \<Rightarrow> int \<Rightarrow> string \<times> int" where
  "chunk_step text chunk_size overlap start =
     (let text_length = int (length text);
          end0 = start + chunk_size;
          chunk0 = py_slice text start end0;
          last_period = rfind chunk0 ''. '';
          shorten = (end0 < text_length \<and> last_period > chunk_size div 2);
          chunk = (if shorten then take (nat (last_period + 1)) chunk0 else chunk0);
          end = (if shorten then start + last_period + 1 else end0)
      in (strip chunk, if end < text_length then end - overlap else text_length))"

text \<open>
  The loop. It need not terminate, so it runs on fuel: one unit per test of the loop
  condition, and \<open>None\<close> when the fuel is used up before the loop is left.
\<close>

fun chunk_loop :: "nat \<Rightarrow> string \<Rightarrow> int \<Rightarrow> int \<Rightarrow> string list \<Rightarrow> int \<Rightarrow> string list option" where
  "chunk_loop 0 text chunk_size overlap chunks start = None"
| "chunk_loop (Suc fuel) text chunk_size overlap chunks start =
     (if start < int (length text)
      then (case chunk_step text chunk_size overlap start of
              (chunk, start') \<Rightarrow> chunk_loop fuel text chunk_size overlap (chunks @ [chunk]) start')
      else Some chunks)"

definition chunk_text :: "nat \<Rightarrow> string \<Rightarrow> int \<Rightarrow> int \<Rightarrow> string list option" where
  "chunk_text fuel text chunk_size overlap = chunk_loop fuel text chunk_size overlap [] 0"

section \<open>Services: errors, collaborators and state\<close>

text \<open>
  Exceptions are values of type \<open>exn\<close>, and a function that may raise returns
  \<open>exn + 'a\<close>. The provider, the vector store, the relational store and the JSON parser
  are outside the repository: each call to one of them is a field of \<open>services\<close>. The
  provider and upsert fields receive the number of calls made before, so that a call may
  fail where an earlier identical one succeeded. The record \<open>world\<close> holds the state the
  services act on, the calls made so far and the messages written by \<open>logger.error\<close>
  (records below error level are not modelled).
\<close>

abbreviation nl :: string where "nl \<equiv> [CHR 0x0A]"
abbreviation apos :: string where "apos \<equiv> [CHR 0x27]"
abbreviation dquote :: string where "dquote \<equiv> [CHR 0x22]"

datatype exn =
    ProviderError string
  | StoreError string
  | KeyError string
  | TypeError string
  | AttributeError string
  | JSONDecodeError string

text \<open>\<open>str(e)\<close>: the message of the exception; a \<open>KeyError\<close> prints its key quoted.\<close>

fun str_exn :: "exn \<Rightarrow> string" where
  "str_exn (ProviderError m) = m"
| "str_exn (StoreError m) = m"
| "str_exn (KeyError k) = apos @ k @ apos"
| "str_exn (TypeError m) = m"
| "str_exn (AttributeError m) = m"
| "str_exn (JSONDecodeError m) = m"

datatype json =
    JNull
  | JBool bool
  | JNum real
  | JStr string
  | JArr "json list"
  | JObj "(string \<times> json) list"

text \<open>A \<open>PointStruct\<close> as \<open>embed_content\<close> builds it: id, vector and the five payload keys.\<close>

record qdrant_point =
  point_id :: string
  point_vector :: "real list"
  payload_text :: string
  payload_chapter_id :: string
  payload_chapter_title :: string
  payload_chunk_index :: nat
  payload_total_chunks :: nat

text \<open>A search hit (its payload may lack \<open>chunk_index\<close>) and the dictionary built from it.\<close>

record hit =
  hit_text :: string
  hit_chapter_id :: string
  hit_chapter_title :: string
  hit_chunk_index :: "nat option"
  hit_score :: real

record context_doc =
  doc_text :: string
  doc_chapter_id :: string
  doc_chapter_title :: string
  doc_chunk_index :: nat
  doc_score :: real

text \<open>The arguments of \<open>chat.completions.create\<close>; messages are (role, content) pairs.\<close>

record chat_request =
  req_model :: string
  req_messages :: "(string \<times> string) list"
  req_temperature :: real
  req_max_tokens :: "int option"
  req_json_object :: bool

text \<open>A row of the table \<open>translation_cache\<close> (\<open>models/database.py\<close>).\<close>

record cache_row =
  row_content_hash :: string
  row_source_lang :: string
  row_target_lang :: string
  row_translated_content :: "string option"

record services =
  embeddings_create :: "nat \<Rightarrow> string \<Rightarrow> exn + real list"
  qdrant_upsert :: "nat \<Rightarrow> qdrant_point \<Rightarrow> exn option"
  qdrant_search :: "real list \<Rightarrow> int \<Rightarrow> string option \<Rightarrow> exn + hit list"
  qdrant_delete :: "string \<Rightarrow> exn option"
  chat_create :: "nat \<Rightarrow> chat_request \<Rightarrow> exn + string option"
  db_query :: "string \<Rightarrow> exn option"
  db_commit :: "cache_row \<Rightarrow> exn option"
  json_loads :: "string \<Rightarrow> exn + json"

record world =
  collection :: "qdrant_point list"
  cache_rows :: "cache_row list"
  embed_log :: "string list"
  upsert_log :: "qdrant_point list"
  chat_log :: "chat_request list"
  error_log :: "string list"

text \<open>
  Modelled from the spec: the vector store's upsert, which is not code of the repository
  (section 4.2: upserting with a previously used id overwrites that point).
\<close>

fun upsert_point :: "qdrant_point \<Rightarrow> qdrant_point list \<Rightarrow> qdrant_point list" where
  "upsert_point p [] = [p]"
| "upsert_point p (q # qs) =
     (if point_id q = point_id p then p # qs else q # upsert_point p qs)"

text \<open>\<open>sep.join(xs)\<close>.\<close>

fun py_join :: "string \<Rightarrow> string list \<Rightarrow> string" where
  "py_join sep [] = []"
| "py_join sep [x] = x"
| "py_join sep (x # y # ys) = x @ sep @ py_join sep (y # ys)"

text \<open>A world with nothing stored, and services whose every call succeeds.\<close>

definition empty_world :: world where
  "empty_world =
     \<lparr>collection = [], cache_rows = [], embed_log = [], upsert_log = [], chat_log = [],
      error_log = []\<rparr>"

definition stub_services :: services where
  "stub_services =
     \<lparr>embeddings_create = (\<lambda>n s. Inr [1]),
      qdrant_upsert = (\<lambda>n p. None),
      qdrant_search = (\<lambda>v l f. Inr []),
      qdrant_delete = (\<lambda>c. None),
      chat_create = (\<lambda>n r. Inr (Some ''ok'')),
      db_query = (\<lambda>h. None),
      db_commit = (\<lambda>r. None),
      json_loads = (\<lambda>s. Inl (JSONDecodeError ''Expecting value''))\<rparr>"

text \<open>Services whose vector store refuses every delete.\<close>

definition store_down :: services where
  "store_down = stub_services\<lparr>qdrant_delete := (\<lambda>c. Some (StoreError ''connection refused''))\<rparr>"


text \<open>
  A content of 1001 characters, one more than a chunk holds, and the metadata of a chapter.
\<close>

definition two_chunk_content :: string where
  "two_chunk_content = replicate 1001 CHR ''a''"

definition intro_metadata :: "string \<rightharpoonup> string" where
  "intro_metadata = [''chapter_id'' \<mapsto> ''intro'', ''chapter_title'' \<mapsto> ''Introduction'']"

text \<open>The ids of the points of a collection, each with the chapter it belongs to.\<close>

definition point_keys :: "qdrant_point list \<Rightarrow> (string \<times> string) list" where
  "point_keys c = map (\<lambda>q. (point_id q, payload_chapter_id q)) c"

text \<open>
  Services whose relational store enforces the columns of \<open>translation_cache\<close>
  (\<open>models/database.py\<close>): both language codes are \<open>String(10)\<close>, and no column is null.
\<close>

definition varchar_store :: services where
  "varchar_store =
     stub_services\<lparr>db_commit :=
       (\<lambda>r. if length (row_source_lang r) > 10 \<or> length (row_target_lang r) > 10
                 \<or> row_translated_content r = None
             then Some (StoreError ''DataError'') else None)\<rparr>"

text \<open>
  Services whose provider answers with the JSON object \<open>{"exercises": "oops"}\<close>, which the
  parser reads as it is.
\<close>

definition wrong_shape_services :: services where
  "wrong_shape_services =
     stub_services\<lparr>chat_create :=
         (\<lambda>n r. Inr (Some (''{'' @ dquote @ ''exercises'' @ dquote @ '': '' @ dquote @ ''oops'' @ dquote @
     ''}''))),
       json_loads :=
         (\<lambda>s. if s = ''{'' @ dquote @ ''exercises'' @ dquote @ '': '' @ dquote @ ''oops'' @ dquote @
     ''}''
              then Inr (JObj [(''exercises'', JStr ''oops'')])
              else Inl (JSONDecodeError ''Expecting value''))\<rparr>"

section \<open>Embedding index client: \<open>EmbeddingService\<close>\<close>

text \<open>The point id of chunk \<open>idx\<close> of a chapter: \<open>md5(f"{chapter_id}_{idx}")\<close>.\<close>

definition content_id :: "string \<Rightarrow> nat \<Rightarrow> string" where
  "content_id chapter_id idx = md5_hexdigest (chapter_id @ ''_'' @ str_nat idx)"

text \<open>
  The body of the \<open>try\<close> in the loop of \<open>embed_content\<close>, for one chunk: the exception it
  raises, if any, and the state it leaves.
\<close>

definition embed_chunk ::
  "services \<Rightarrow> (string \<rightharpoonup> string) \<Rightarrow> nat \<Rightarrow> nat \<Rightarrow> string \<Rightarrow> world \<Rightarrow> exn option \<times> world" where
  "embed_chunk env metadata n_chunks idx chunk w =
     (let w1 = w\<lparr>embed_log := embed_log w @ [chunk]\<rparr>
      in case embeddings_create env (length (embed_log w)) chunk of
           Inl e \<Rightarrow> (Some e, w1)
         | Inr embedding \<Rightarrow>
             (case metadata ''chapter_id'' of
                None \<Rightarrow> (Some (KeyError ''chapter_id''), w1)
              | Some chapter_id \<Rightarrow>
                  (case metadata ''chapter_title'' of
                     None \<Rightarrow> (Some (KeyError ''chapter_title''), w1)
                   | Some chapter_title \<Rightarrow>
                       (let p = \<lparr>point_id = content_id chapter_id idx,
                                 point_vector = embedding,
                                 payload_text = chunk,
                                 payload_chapter_id = chapter_id,
                                 payload_chapter_title = chapter_title,
                                 payload_chunk_index = idx,
                                 payload_total_chunks = n_chunks\<rparr>;
                            w2 = w1\<lparr>upsert_log := upsert_log w1 @ [p]\<rparr>
                        in case qdrant_upsert env (length (upsert_log w1)) p of
                             Some e \<Rightarrow> (Some e, w2)
                           | None \<Rightarrow>
                               (None, w2\<lparr>collection := upsert_point p (collection w2)\<rparr>)))))"

text \<open>
  The \<open>for idx, chunk in enumerate(chunks)\<close> loop with its \<open>except\<close> clause, which logs the
  index and re-raises the exception it caught.
\<close>

fun embed_chunks ::
  "services \<Rightarrow> (string \<rightharpoonup> string) \<Rightarrow> nat \<Rightarrow> nat \<Rightarrow> string list \<Rightarrow> world \<Rightarrow> exn option \<times> world" where
  "embed_chunks env metadata n_chunks idx [] w = (None, w)"
| "embed_chunks env metadata n_chunks idx (chunk # rest) w =
     (case embed_chunk env metadata n_chunks idx chunk w of
        (Some e, w') \<Rightarrow>
          (Some e,
           w'\<lparr>error_log := error_log w' @
                 [''Error embedding chunk '' @ str_nat idx @ '': '' @ str_exn e]\<rparr>)
      | (None, w') \<Rightarrow> embed_chunks env metadata n_chunks (Suc idx) rest w')"

text \<open>
  \<open>embed_content\<close>. The chunker runs on fuel, so the result is \<open>None\<close> when the fuel does
  not suffice for the chunking (with the default sizes, \<open>length content + 1\<close> suffices).
\<close>

definition embed_content ::
  "nat \<Rightarrow> services \<Rightarrow> string \<Rightarrow> (string \<rightharpoonup> string) \<Rightarrow> world \<Rightarrow> ((exn + nat) \<times> world) option" where
  "embed_content fuel env content metadata w =
     (case chunk_text fuel content 1000 200 of
        None \<Rightarrow> None
      | Some chunks \<Rightarrow>
          (case embed_chunks env metadata (length chunks) 0 chunks w of
             (Some e, w') \<Rightarrow> Some (Inl e, w')
           | (None, w') \<Rightarrow> Some (Inr (length chunks), w')))"

definition search_similar ::
  "services \<Rightarrow> string \<Rightarrow> int \<Rightarrow> string option \<Rightarrow> world \<Rightarrow> (exn + context_doc list) \<times> world" where
  "search_similar env query limit chapter_id w =
     (let w1 = w\<lparr>embed_log := embed_log w @ [query]\<rparr>
      in case embeddings_create env (length (embed_log w)) query of
           Inl e \<Rightarrow>
             (Inl e,
              w1\<lparr>error_log := error_log w1 @
                   [''Error searching similar content: '' @ str_exn e]\<rparr>)
         | Inr query_embedding \<Rightarrow>
             (let search_filter =
                    (case chapter_id of
                       None \<Rightarrow> None
                     | Some c \<Rightarrow> if c = [] then None else Some c)
              in case qdrant_search env query_embedding limit search_filter of
                   Inl e \<Rightarrow>
                     (Inl e,
                      w1\<lparr>error_log := error_log w1 @
                           [''Error searching similar content: '' @ str_exn e]\<rparr>)
                 | Inr search_results \<Rightarrow>
                     (Inr (map (\<lambda>h. \<lparr>doc_text = hit_text h,
                                      doc_chapter_id = hit_chapter_id h,
                                      doc_chapter_title = hit_chapter_title h,
                                      doc_chunk_index =
                                        (case hit_chunk_index h of None \<Rightarrow> 0 | Some i \<Rightarrow> i),
                                      doc_score = hit_score h\<rparr>) search_results),
                      w1)))"

text \<open>
  \<open>delete_chapter_embeddings\<close>. The result type has room for a raised exception, so that
  the theorems can say whether one is raised.
\<close>

definition delete_chapter_embeddings ::
  "services \<Rightarrow> string \<Rightarrow> world \<Rightarrow> (exn + bool) \<times> world" where
  "delete_chapter_embeddings env chapter_id w =
     (case qdrant_delete env chapter_id of
        None \<Rightarrow>
          (Inr True,
           w\<lparr>collection := filter (\<lambda>p. payload_chapter_id p \<noteq> chapter_id) (collection w)\<rparr>)
      | Some e \<Rightarrow>
          (Inr False,
           w\<lparr>error_log := error_log w @
                [''Error deleting chapter embeddings: '' @ str_exn e]\<rparr>))"

section \<open>Retrieval-augmented answerer: \<open>RAGService\<close>\<close>

definition default_system_prompt :: string where
  "default_system_prompt =
     ''You are an expert AI tutor teaching Physical AI and Humanoid '' @
     ''Robotics.'' @ nl @
     nl @
     ''Your role is to:'' @ nl @
     ''- Answer questions based on the provided context from the textbook'' @ nl @
     ''- Be clear, concise, and educational'' @ nl @
     ''- Use examples to illustrate complex concepts'' @ nl @
     ''- If the context doesn'' @ apos @
     ''t contain enough information, acknowledge this and provide what '' @
     ''you can'' @ nl @
     ''- Maintain a friendly, encouraging tone suitable for students'' @ nl @
     nl @
     ''When answering:'' @ nl @
     ''1. Focus on the most relevant information from the context'' @ nl @
     ''2. Break down complex topics into understandable parts'' @ nl @
     ''3. Reference specific concepts from the textbook when applicable'' @ nl @
     ''4. Encourage further learning and exploration''"

definition fallback_message :: string where
  "fallback_message =
     ''I couldn'' @ apos @
     ''t find relevant information in the textbook to answer your '' @
     ''question. Could you please rephrase or ask about a different '' @ ''topic?''"

definition build_context :: "context_doc list \<Rightarrow> string" where
  "build_context context_docs =
     py_join (nl @ nl)
       (map (\<lambda>(idx, doc). ''[Source '' @ str_nat idx @ '': '' @ doc_chapter_title doc @ '']'' @
                          nl @ doc_text doc)
            (zip [1..<Suc (length context_docs)] context_docs))"

definition generate_response ::
  "services \<Rightarrow> string \<Rightarrow> context_doc list \<Rightarrow> string option \<Rightarrow> real \<Rightarrow> int \<Rightarrow> world
   \<Rightarrow> (exn + string option) \<times> world" where
  "generate_response env query context_docs system_prompt temperature max_tokens w =
     (let context = build_context context_docs;
          prompt = (case system_prompt of
                      None \<Rightarrow> default_system_prompt
                    | Some s \<Rightarrow> if s = [] then default_system_prompt else s);
          req = \<lparr>req_model = ''gpt-4o-mini'',
                 req_messages =
                   [(''system'', prompt),
                    (''user'', ''Context from textbook:'' @ nl @ nl @ context @ nl @ nl @
                               ''Student'' @ apos @ ''s question: '' @ query)],
                 req_temperature = temperature,
                 req_max_tokens = Some max_tokens,
                 req_json_object = False\<rparr>;
          w1 = w\<lparr>chat_log := chat_log w @ [req]\<rparr>
      in case chat_create env (length (chat_log w)) req of
           Inl e \<Rightarrow>
             (Inl e,
              w1\<lparr>error_log := error_log w1 @ [''Error generating response: '' @ str_exn e]\<rparr>)
         | Inr answer \<Rightarrow> (Inr answer, w1))"

definition answer_with_context ::
  "services \<Rightarrow> string \<Rightarrow> string option \<Rightarrow> int \<Rightarrow> world
   \<Rightarrow> (exn + string option \<times> context_doc list) \<times> world" where
  "answer_with_context env query chapter_id limit w =
     (case search_similar env query limit chapter_id w of
        (Inl e, w1) \<Rightarrow> (Inl e, w1)
      | (Inr context_docs, w1) \<Rightarrow>
          if context_docs = [] then (Inr (Some fallback_message, []), w1)
          else (case generate_response env query context_docs None (7 / 10) 1000 w1 of
                  (Inl e, w2) \<Rightarrow> (Inl e, w2)
                | (Inr answer, w2) \<Rightarrow> (Inr (answer, context_docs), w2)))"

section \<open>Translation cache: \<open>TranslationService\<close>\<close>

definition hash_input :: "string \<Rightarrow> string \<Rightarrow> string" where
  "hash_input content target_lang = content @ ''_'' @ target_lang"

definition get_content_hash :: "string \<Rightarrow> string \<Rightarrow> string" where
  "get_content_hash content target_lang = md5_hexdigest (hash_input content target_lang)"

definition translation_request :: "string \<Rightarrow> string \<Rightarrow> chat_request" where
  "translation_request target_lang_name content =
     \<lparr>req_model = ''gpt-4o-mini'',
      req_messages =
        [(''system'',
          ''You are a professional translator specializing in technical and '' @
          ''educational content about Physical AI and Humanoid Robotics.'' @ nl @
          nl @
          ''Translate the following content to '' @
          target_lang_name @
          '':'' @ nl @
          ''- Maintain technical accuracy'' @ nl @
          ''- Keep technical terms in English when appropriate (e.g., '' @ dquote @
          ''Physical AI'' @ dquote @ '', '' @ dquote @ ''robotics'' @ dquote @ '', '' @
          dquote @ ''actuator'' @ dquote @ '')'' @ nl @
          ''- Preserve formatting (markdown, code blocks, etc.)'' @ nl @
          ''- Ensure the translation is natural and readable'' @ nl @
          ''- Maintain the educational tone''),
         (''user'', content)],
      req_temperature = 3 / 10,
      req_max_tokens = Some 4000,
      req_json_object = False\<rparr>"

text \<open>
  \<open>translate_content\<close>. \<open>db.query(...).filter(...).first()\<close> is the first row with the
  hash; the lookup stands before the \<open>try\<close>, so a failure of the store there (\<open>db_query\<close>)
  is raised without being logged. \<open>db.add\<close> and \<open>db.commit\<close> store the new row unless
  the store refuses it.
\<close>

definition translate_content ::
  "services \<Rightarrow> string \<Rightarrow> string \<Rightarrow> string \<Rightarrow> world \<Rightarrow> (exn + string option) \<times> world" where
  "translate_content env content target_lang source_lang w =
     (let content_hash = get_content_hash content target_lang
      in case db_query env content_hash of
           Some e \<Rightarrow> (Inl e, w)
         | None \<Rightarrow>
      (case find (\<lambda>r. row_content_hash r = content_hash) (cache_rows w) of
           Some cached \<Rightarrow> (Inr (row_translated_content cached), w)
         | None \<Rightarrow>
             (let target_lang_name =
                    (if target_lang = ''en'' then ''English''
                     else if target_lang = ''ur'' then ''Urdu''
                     else target_lang);
                  req = translation_request target_lang_name content;
                  w1 = w\<lparr>chat_log := chat_log w @ [req]\<rparr>
              in case chat_create env (length (chat_log w)) req of
                   Inl e \<Rightarrow>
                     (Inl e,
                      w1\<lparr>error_log := error_log w1 @
                           [''Error translating content: '' @ str_exn e]\<rparr>)
                 | Inr translated \<Rightarrow>
                     (let cache_entry = \<lparr>row_content_hash = content_hash,
                                          row_source_lang = source_lang,
                                          row_target_lang = target_lang,
                                          row_translated_content = translated\<rparr>
                      in case db_commit env cache_entry of
                           Some e \<Rightarrow>
                             (Inl e,
                              w1\<lparr>error_log := error_log w1 @
                                   [''Error translating content: '' @ str_exn e]\<rparr>)
                         | None \<Rightarrow>
                             (Inr translated,
                              w1\<lparr>cache_rows := cache_rows w1 @ [cache_entry]\<rparr>)))))"

section \<open>Personalization composer: \<open>PersonalizationService.suggest_exercises\<close>\<close>

definition exercises_request :: "int \<Rightarrow> string \<Rightarrow> string \<Rightarrow> chat_request" where
  "exercises_request num_exercises software_bg content =
     \<lparr>req_model = ''gpt-4o-mini'',
      req_messages =
        [(''system'',
          ''Create '' @ str_int num_exercises @
          '' practice exercises based on the content.'' @ nl @
          nl @
          ''User'' @ apos @ ''s software level: '' @
          software_bg @
          nl @
          nl @
          ''Generate exercises appropriate for their level:'' @ nl @
          ''- Beginner: Step-by-step guided exercises'' @ nl @
          ''- Intermediate: Problem-solving with hints'' @ nl @
          ''- Advanced: Open-ended challenges'' @ nl @
          nl @
          ''Return a JSON array of exercises with:'' @ nl @
          ''{'' @ nl @
          ''  '' @ dquote @ ''title'' @ dquote @ '': '' @ dquote @ ''Exercise title'' @
          dquote @ '','' @ nl @
          ''  '' @ dquote @ ''description'' @ dquote @ '': '' @ dquote @
          ''What to do'' @ dquote @ '','' @ nl @
          ''  '' @ dquote @ ''difficulty'' @ dquote @ '': '' @ dquote @
          ''easy/medium/hard'' @ dquote @ '','' @ nl @
          ''  '' @ dquote @ ''hints'' @ dquote @ '': ['' @ dquote @ ''hint1'' @
          dquote @ '', '' @ dquote @ ''hint2'' @ dquote @ ''],'' @ nl @
          ''  '' @ dquote @ ''solution_outline'' @ dquote @ '': '' @ dquote @
          ''Brief outline'' @ dquote @ nl @
          ''}''),
         (''user'', ''Content:'' @ nl @ take 2000 content)],
      req_temperature = 7 / 10,
      req_max_tokens = None,
      req_json_object = True\<rparr>"

text \<open>
  The body of the \<open>try\<close>: the provider call, \<open>json.loads\<close> (a \<open>TypeError\<close> when the message
  has no content), \<open>result.get("exercises", [])\<close> (an \<open>AttributeError\<close> unless the parsed
  value is an object) and \<open>len(exercises)\<close> (a \<open>TypeError\<close> for a value without length).
\<close>

definition exercises_of :: "json \<Rightarrow> exn + json" where
  "exercises_of result =
     (case result of
        JObj kvs \<Rightarrow>
          (let exercises = (case map_of kvs ''exercises'' of None \<Rightarrow> JArr [] | Some v \<Rightarrow> v)
           in case exercises of
                JNull \<Rightarrow> Inl (TypeError ''object of type NoneType has no len()'')
              | JBool b \<Rightarrow> Inl (TypeError ''object of type bool has no len()'')
              | JNum x \<Rightarrow> Inl (TypeError ''object of type number has no len()'')
              | _ \<Rightarrow> Inr exercises)
      | _ \<Rightarrow> Inl (AttributeError ''object has no attribute get''))"

definition suggest_exercises_try ::
  "services \<Rightarrow> string \<Rightarrow> string \<Rightarrow> int \<Rightarrow> world \<Rightarrow> (exn + json) \<times> world" where
  "suggest_exercises_try env content software_bg num_exercises w =
     (let req = exercises_request num_exercises software_bg content;
          w1 = w\<lparr>chat_log := chat_log w @ [req]\<rparr>
      in (case chat_create env (length (chat_log w)) req of
            Inl e \<Rightarrow> Inl e
          | Inr None \<Rightarrow> Inl (TypeError ''the JSON object must be str, bytes or bytearray'')
          | Inr (Some text) \<Rightarrow>
              (case json_loads env text of
                 Inl e \<Rightarrow> Inl e
               | Inr result \<Rightarrow> exercises_of result),
          w1))"

definition suggest_exercises ::
  "services \<Rightarrow> string \<Rightarrow> (string \<rightharpoonup> string) \<Rightarrow> int \<Rightarrow> world \<Rightarrow> (exn + json) \<times> world" where
  "suggest_exercises env content user_background num_exercises w =
     (let software_bg = (case user_background ''software_background'' of
                           None \<Rightarrow> ''beginner''
                         | Some b \<Rightarrow> b)
      in case suggest_exercises_try env content software_bg num_exercises w of
           (Inr exercises, w1) \<Rightarrow> (Inr exercises, w1)
         | (Inl e, w1) \<Rightarrow>
             (Inr (JArr []),
              w1\<lparr>error_log := error_log w1 @
                   [''Error generating exercises: '' @ str_exn e]\<rparr>))"

section \<open>Batch script \<open>embed_content.py\<close>: the upload loop of \<open>embed_documents\<close>\<close>

record chunk_obj =
  co_text :: string
  co_title :: string
  co_file_path :: string
  co_chunk_index :: nat
  co_total_chunks :: nat

record script_point =
  sp_id :: string
  sp_vector :: "real list"
  sp_text :: string
  sp_title :: string
  sp_file_path :: string
  sp_chunk_index :: nat
  sp_total_chunks :: nat

text \<open>
  The state of the loop: the batch \<open>points\<close>, the collection, and how many embeddings,
  uploads and \<open>uuid.uuid4()\<close> values were requested. \<open>uuid4 k\<close> is the \<open>k\<close>-th random id
  drawn in the run; \<open>upload_fails n\<close> tells whether the \<open>n\<close>-th upload raises.
\<close>

record script_state =
  points :: "script_point list"
  uploaded :: "script_point list"
  embed_count :: nat
  upsert_count :: nat
  uuid_count :: nat

fun upload_chunks ::
  "services \<Rightarrow> (nat \<Rightarrow> exn option) \<Rightarrow> (nat \<Rightarrow> string) \<Rightarrow> nat \<Rightarrow> nat \<Rightarrow> chunk_obj list
   \<Rightarrow> script_state \<Rightarrow> script_state" where
  "upload_chunks env upload_fails uuid4 n i [] s = s"
| "upload_chunks env upload_fails uuid4 n i (chunk_obj # rest) s =
     (case embeddings_create env (embed_count s) (co_text chunk_obj) of
        Inl e \<Rightarrow>
          upload_chunks env upload_fails uuid4 n (Suc i) rest
            (s\<lparr>embed_count := Suc (embed_count s)\<rparr>)
      | Inr embedding \<Rightarrow>
          (let point = \<lparr>sp_id = uuid4 (uuid_count s),
                        sp_vector = embedding,
                        sp_text = co_text chunk_obj,
                        sp_title = co_title chunk_obj,
                        sp_file_path = co_file_path chunk_obj,
                        sp_chunk_index = co_chunk_index chunk_obj,
                        sp_total_chunks = co_total_chunks chunk_obj\<rparr>;
               s1 = s\<lparr>embed_count := Suc (embed_count s), uuid_count := Suc (uuid_count s),
                      points := points s @ [point]\<rparr>
           in if length (points s1) \<ge> 100 \<or> int i = int n - 1
              then (case upload_fails (upsert_count s1) of
                      Some e \<Rightarrow>
                        upload_chunks env upload_fails uuid4 n (Suc i) rest
                          (s1\<lparr>upsert_count := Suc (upsert_count s1)\<rparr>)
                    | None \<Rightarrow>
                        upload_chunks env upload_fails uuid4 n (Suc i) rest
                          (s1\<lparr>upsert_count := Suc (upsert_count s1),
                              uploaded := uploaded s1 @ points s1, points := []\<rparr>))
              else upload_chunks env upload_fails uuid4 n (Suc i) rest s1))"

text \<open>
  \<open>embed_documents\<close> from the chunk objects of all files on: \<open>create_collection\<close> leaves an
  empty collection, and the loop fills it.
\<close>

definition embed_documents ::
  "services \<Rightarrow> (nat \<Rightarrow> exn option) \<Rightarrow> (nat \<Rightarrow> string) \<Rightarrow> chunk_obj list \<Rightarrow> script_point list" where
  "embed_documents env upload_fails uuid4 all_chunks =
     uploaded (upload_chunks env upload_fails uuid4 (length all_chunks) 0 all_chunks
       \<lparr>points = [], uploaded = [], embed_count = 0, upsert_count = 0, uuid_count = 0\<rparr>)"

text \<open>Two sources of random ids, for two runs of the script.\<close>

definition uuid_run1 :: "nat \<Rightarrow> string" where
  "uuid_run1 k = ''3f2b8c1e-run1-'' @ str_nat k"

definition uuid_run2 :: "nat \<Rightarrow> string" where
  "uuid_run2 k = ''9a7d4e60-run2-'' @ str_nat k"

text \<open>The only chunk of a one-chunk file, as \<open>process_markdown_file\<close> hands it over.\<close>

definition servo_chunk :: chunk_obj where
  "servo_chunk =
     \<lparr>co_text = ''Servo motors.'', co_title = ''Intro'', co_file_path = ''docs/intro.md'',
      co_chunk_index = 0, co_total_chunks = 1\<rparr>"

section \<open>Verified properties\<close>

subsection \<open>Chunker\<close>

lemma chunk_step_stuck:
  "chunk_step ''aaaaaaa. bbbbbbbbbbbbb'' 10 8 0 = (''aaaaaaa.'', 0)"
  by code_simp

lemma chunk_loop_stuck:
  "chunk_loop fuel ''aaaaaaa. bbbbbbbbbbbbb'' 10 8 chunks 0 = None"
  by (induction fuel arbitrary: chunks) (simp_all add: chunk_step_stuck)

text \<open>
  C6 (code defect). The claim is that for every text and every \<open>chunk_size > overlap \<ge> 0\<close> the
  chunker makes forward progress on each iteration and terminates. With \<open>chunk_size = 10\<close> and
  \<open>overlap = 8\<close> the sentence break shortens the first window of the text below to 8
  characters, the next window starts at \<open>8 - 8 = 0\<close> again, and the loop never ends: no
  amount of fuel produces a result.
\<close>

theorem chunk_text_diverges:
  "snd (chunk_step ''aaaaaaa. bbbbbbbbbbbbb'' 10 8 0) = 0
   \<and> chunk_text fuel ''aaaaaaa. bbbbbbbbbbbbb'' 10 8 = None"
  by (simp add: chunk_text_def chunk_loop_stuck chunk_step_stuck)

text \<open>
  When the overlap is at most \<open>chunk_size div 2 + 1\<close> (as with the defaults 1000 and 200)
  every iteration advances the window and the loop ends within \<open>length text + 1\<close> tests
  of its condition.
\<close>

lemma chunk_step_progress:
  assumes "0 \<le> overlap" "overlap \<le> chunk_size div 2 + 1" "overlap < chunk_size"
    and "start < int (length text)"
  shows "start < snd (chunk_step text chunk_size overlap start)
         \<and> snd (chunk_step text chunk_size overlap start) \<le> int (length text)"
proof -
  let ?n = "int (length text)"
  let ?lp = "rfind (py_slice text start (start + chunk_size)) ''. ''"
  let ?sh = "start + chunk_size < ?n \<and> ?lp > chunk_size div 2"
  let ?e = "if ?sh then start + ?lp + 1 else start + chunk_size"
  have s: "snd (chunk_step text chunk_size overlap start) = (if ?e < ?n then ?e - overlap else ?n)"
    by (simp add: chunk_step_def Let_def)
  have e: "start + overlap < ?e"
  proof (cases ?sh)
    case True
    then have "?e = start + ?lp + 1" by simp
    with True assms show ?thesis by linarith
  next
    case False
    then have "?e = start + chunk_size" by (simp only: if_False)
    with assms show ?thesis by linarith
  qed
  show ?thesis
  proof (cases "?e < ?n")
    case True
    then have "snd (chunk_step text chunk_size overlap start) = ?e - overlap" using s by simp
    with True e assms show ?thesis by linarith
  next
    case False
    then have "snd (chunk_step text chunk_size overlap start) = ?n" using s by simp
    with assms show ?thesis by simp
  qed
qed

lemma chunk_loop_terminates:
  assumes "0 \<le> overlap" "overlap \<le> chunk_size div 2 + 1" "overlap < chunk_size"
  shows "nat (int (length text) - start) < fuel \<Longrightarrow>
         \<exists>cs. chunk_loop fuel text chunk_size overlap chunks start = Some cs"
proof (induction fuel arbitrary: chunks start)
  case 0
  then show ?case by simp
next
  case (Suc fuel)
  show ?case
  proof (cases "start < int (length text)")
    case False
    then have "chunk_loop (Suc fuel) text chunk_size overlap chunks start = Some chunks"
      by (simp only: chunk_loop.simps if_False)
    then show ?thesis by blast
  next
    case True
    obtain c s' where st: "chunk_step text chunk_size overlap start = (c, s')"
      by (cases "chunk_step text chunk_size overlap start")
    from chunk_step_progress[OF assms True] st have "start < s'" by simp
    with Suc.prems True have "nat (int (length text) - s') < fuel" by linarith
    from Suc.IH[OF this] obtain cs
      where "chunk_loop fuel text chunk_size overlap (chunks @ [c]) s' = Some cs" by blast
    moreover from True
    have "chunk_loop (Suc fuel) text chunk_size overlap chunks start =
          chunk_loop fuel text chunk_size overlap (chunks @ [c]) s'"
      by (simp only: chunk_loop.simps if_True st prod.case)
    ultimately show ?thesis by simp
  qed
qed

lemma chunk_text_terminates:
  assumes "0 \<le> overlap" "overlap \<le> chunk_size div 2 + 1" "overlap < chunk_size"
  shows "\<exists>cs. chunk_text (Suc (length text)) text chunk_size overlap = Some cs"
  unfolding chunk_text_def
  by (rule chunk_loop_terminates[OF assms]) simp

lemma py_slice_all: "int (length s) \<le> e \<Longrightarrow> py_slice s 0 e = s"
  by (simp add: py_slice_def py_index_def Let_def)

lemma chunk_step_short:
  "int (length text) \<le> chunk_size \<Longrightarrow>
   chunk_step text chunk_size overlap 0 = (strip text, int (length text))"
  by (simp add: chunk_step_def Let_def py_slice_all)

text \<open>
  C7 (amended). For every non-empty text with \<open>len(text) \<le> chunk_size\<close>, \<open>chunk_text\<close>
  returns exactly one chunk, the stripped text, whatever the overlap; for the empty text it
  returns no chunk at all.
\<close>

theorem chunk_text_short:
  "text \<noteq> [] \<Longrightarrow> int (length text) \<le> chunk_size \<Longrightarrow>
   chunk_text (Suc (Suc fuel)) text chunk_size overlap = Some [strip text]"
  by (simp add: chunk_text_def chunk_step_short)

theorem chunk_text_short_witness:
  "''  ab '' \<noteq> [] \<and> int (length ''  ab '') \<le> 1000
   \<and> chunk_text (Suc (Suc 0)) ''  ab '' 1000 200 = Some [''ab'']"
  using chunk_text_short[of "''  ab ''" 1000 0 200]
  by (simp add: strip_def is_space_def)

text \<open>
  The empty text has length \<open>0 \<le> chunk_size\<close> and yields the empty list of chunks, not one
  chunk.
\<close>

theorem chunk_text_empty_counterexample:
  "int (length '''') \<le> 1000 \<and> chunk_text 1 '''' 1000 200 = Some []"
  by (simp add: chunk_text_def)

subsection \<open>Deletion\<close>

text \<open>
  C8 (amended). When the vector-store delete call fails, \<open>delete_chapter_embeddings\<close> does
  not raise: it writes the error to the log, leaves the collection as it is and returns
  \<open>False\<close>; when the call succeeds it returns \<open>True\<close>.
\<close>

theorem delete_chapter_embeddings_result:
  "(qdrant_delete env chapter_id = Some e \<longrightarrow>
      delete_chapter_embeddings env chapter_id w =
        (Inr False,
         w\<lparr>error_log := error_log w @ [''Error deleting chapter embeddings: '' @ str_exn e]\<rparr>))
   \<and> (qdrant_delete env chapter_id = None \<longrightarrow>
      fst (delete_chapter_embeddings env chapter_id w) = Inr True)"
  by (simp add: delete_chapter_embeddings_def)

text \<open>The statement at a store that refuses the delete.\<close>

theorem delete_chapter_embeddings_result_witness:
  "qdrant_delete store_down ''intro.md'' = Some (StoreError ''connection refused'')
   \<and> delete_chapter_embeddings store_down ''intro.md'' empty_world =
       (Inr False,
        empty_world\<lparr>error_log := error_log empty_world @
          [''Error deleting chapter embeddings: '' @ str_exn (StoreError ''connection refused'')]\<rparr>)"
  using delete_chapter_embeddings_result
          [of store_down "''intro.md''" "StoreError ''connection refused''" empty_world]
  by (simp add: store_down_def stub_services_def)

text \<open>
  The claim as stated, that the store failure is propagated to the caller, fails: with a
  store that refuses the delete, the call returns \<open>False\<close> normally.
\<close>

theorem delete_chapter_embeddings_swallows_counterexample:
  "qdrant_delete store_down ''intro.md'' = Some (StoreError ''connection refused'')
   \<and> fst (delete_chapter_embeddings store_down ''intro.md'' empty_world) = Inr False
   \<and> fst (delete_chapter_embeddings store_down ''intro.md'' empty_world)
       \<noteq> Inl (StoreError ''connection refused'')"
  by (simp add: delete_chapter_embeddings_def store_down_def stub_services_def)

subsection \<open>Answering\<close>

lemma search_similar_chat_log:
  "chat_log (snd (search_similar env query limit chapter_id w)) = chat_log w"
  by (simp add: search_similar_def Let_def split: sum.splits option.splits)

text \<open>
  C1. For every query, if the retrieval step \<open>search_similar\<close> returns zero results,
  \<open>answer_with_context\<close> returns the fixed fallback message and an empty source list, and
  makes no call to the generation model: the log of chat calls is as it was.
\<close>

theorem answer_with_context_empty:
  assumes "fst (search_similar env query limit chapter_id w) = Inr []"
  shows "fst (answer_with_context env query chapter_id limit w) = Inr (Some fallback_message, [])
         \<and> chat_log (snd (answer_with_context env query chapter_id limit w)) = chat_log w"
proof -
  obtain r w1 where s: "search_similar env query limit chapter_id w = (r, w1)"
    by (cases "search_similar env query limit chapter_id w")
  with assms have r: "r = Inr []" by simp
  from s have "chat_log w1 = chat_log w"
    using search_similar_chat_log[of env query limit chapter_id w] by simp
  with s r show ?thesis by (simp add: answer_with_context_def)
qed

text \<open>The statement at a store that finds nothing.\<close>

theorem answer_with_context_empty_witness:
  "fst (search_similar stub_services ''what is a servo'' 5 None empty_world) = Inr []
   \<and> fst (answer_with_context stub_services ''what is a servo'' None 5 empty_world)
       = Inr (Some fallback_message, [])
   \<and> chat_log (snd (answer_with_context stub_services ''what is a servo'' None 5 empty_world))
       = chat_log empty_world"
proof -
  have h: "fst (search_similar stub_services ''what is a servo'' 5 None empty_world) = Inr []"
    by (simp add: search_similar_def stub_services_def Let_def)
  from answer_with_context_empty[OF h] h show ?thesis by simp
qed

subsection \<open>Translation cache\<close>

lemma sep_split_unique:
  "x \<notin> set ys \<Longrightarrow> x \<notin> set ys' \<Longrightarrow> xs @ x # ys = xs' @ x # ys' \<Longrightarrow> xs = xs' \<and> ys = ys'"
proof -
  assume a: "x \<notin> set ys" "x \<notin> set ys'" and e: "xs @ x # ys = xs' @ x # ys'"
  have r: "\<And>us us' vs vs'. x \<notin> set us \<Longrightarrow> x \<notin> set us' \<Longrightarrow> us @ x # vs = us' @ x # vs'
            \<Longrightarrow> us = us' \<and> vs = vs'"
  proof -
    fix us us' vs vs'
    show "x \<notin> set us \<Longrightarrow> x \<notin> set us' \<Longrightarrow> us @ x # vs = us' @ x # vs' \<Longrightarrow> us = us' \<and> vs = vs'"
    proof (induction us arbitrary: us')
      case Nil
      then show ?case by (cases us') auto
    next
      case (Cons a us)
      then show ?case by (cases us') auto
    qed
  qed
  from e have "rev (xs @ x # ys) = rev (xs' @ x # ys')" by simp
  then have "rev ys @ x # rev xs = rev ys' @ x # rev xs'" by simp
  with a r[of "rev ys" "rev ys'" "rev xs" "rev xs'"] have "rev ys = rev ys' \<and> rev xs = rev xs'"
    by simp
  then show ?thesis by simp
qed

text \<open>
  C3 (amended). The cache key is the MD5 digest of \<open>content + "_" + target_lang\<close>, with no
  normalisation. For target languages without an underscore, two distinct pairs
  (any change to either field, whitespace included) are hashed from two different strings,
  so their keys differ unless MD5 itself collides.
\<close>

theorem hash_input_distinct:
  assumes "CHR ''_'' \<notin> set t1" "CHR ''_'' \<notin> set t2" "(c1, t1) \<noteq> (c2, t2)"
  shows "hash_input c1 t1 \<noteq> hash_input c2 t2
         \<and> get_content_hash c1 t1 = md5_hexdigest (hash_input c1 t1)
         \<and> get_content_hash c2 t2 = md5_hexdigest (hash_input c2 t2)"
proof -
  have "hash_input c1 t1 \<noteq> hash_input c2 t2"
  proof
    assume "hash_input c1 t1 = hash_input c2 t2"
    then have "c1 @ CHR ''_'' # t1 = c2 @ CHR ''_'' # t2" by (simp add: hash_input_def)
    from sep_split_unique[OF assms(1) assms(2) this] assms(3) show False by simp
  qed
  then show ?thesis by (simp add: get_content_hash_def)
qed

text \<open>The statement at two contents that differ by one trailing space.\<close>

theorem hash_input_distinct_witness:
  "CHR ''_'' \<notin> set ''ur'' \<and> (''Hello'', ''ur'') \<noteq> (''Hello '', ''ur'')
   \<and> hash_input ''Hello'' ''ur'' \<noteq> hash_input ''Hello '' ''ur''"
proof -
  have a: "CHR ''_'' \<notin> set ''ur''" by simp
  have b: "(''Hello'', ''ur'') \<noteq> (''Hello '', ''ur'')" by simp
  from hash_input_distinct[OF a a b] a b show ?thesis by simp
qed

text \<open>
  The claim as stated fails: the separator may occur in either field, so two distinct
  pairs can be joined into the same string and share one key.
\<close>

theorem get_content_hash_collision_counterexample:
  "(''a_b'', ''c'') \<noteq> (''a'', ''b_c'')
   \<and> get_content_hash ''a_b'' ''c'' = get_content_hash ''a'' ''b_c''"
  by (simp add: get_content_hash_def hash_input_def)

lemma find_append_rows:
  "find P (xs @ ys) = (case find P xs of None \<Rightarrow> find P ys | Some x \<Rightarrow> Some x)"
  by (induction xs) auto

text \<open>
  C2. After a call to \<open>translate_content\<close> has returned a translation, a second call with
  the same content and target language, whatever the provider and the source language
  then are, and with a store that answers the lookup, returns the same stored text and
  leaves the state unchanged: in particular it makes no provider call.
\<close>

theorem translate_content_cached:
  assumes "translate_content env content target_lang source_lang w = (Inr txt, w1)"
    and "db_query env' (get_content_hash content target_lang) = None"
  shows "translate_content env' content target_lang source_lang' w1 = (Inr txt, w1)
         \<and> chat_log (snd (translate_content env' content target_lang source_lang' w1))
             = chat_log w1"
proof -
  let ?h = "get_content_hash content target_lang"
  let ?P = "\<lambda>r. row_content_hash r = ?h"
  let ?req = "translation_request
                (if target_lang = ''en'' then ''English''
                 else if target_lang = ''ur'' then ''Urdu'' else target_lang) content"
  have q: "db_query env ?h = None"
  proof (cases "db_query env ?h")
    case (Some e)
    with assms(1) show ?thesis by (simp add: translate_content_def Let_def)
  qed simp
  have "\<exists>cached. find ?P (cache_rows w1) = Some cached \<and> row_translated_content cached = txt"
  proof (cases "find ?P (cache_rows w)")
    case (Some cached)
    with assms q have "w1 = w" "txt = row_translated_content cached"
      by (simp_all add: translate_content_def Let_def)
    with Some show ?thesis by simp
  next
    case None
    show ?thesis
    proof (cases "chat_create env (length (chat_log w)) ?req")
      case (Inl e)
      with q None assms show ?thesis by (simp add: translate_content_def Let_def)
    next
      case (Inr x)
      let ?entry = "\<lparr>row_content_hash = ?h, row_source_lang = source_lang,
                      row_target_lang = target_lang, row_translated_content = x\<rparr>"
      show ?thesis
      proof (cases "db_commit env ?entry")
        case (Some e)
        with q None Inr assms show ?thesis by (simp add: translate_content_def Let_def)
      next
        case None2: None
        with q None Inr assms have "txt = x" and "cache_rows w1 = cache_rows w @ [?entry]"
          by (auto simp add: translate_content_def Let_def)
        with None show ?thesis by (simp add: find_append_rows)
      qed
    qed
  qed
  then obtain cached where "find ?P (cache_rows w1) = Some cached"
      and "row_translated_content cached = txt" by blast
  with assms(2) have "translate_content env' content target_lang source_lang' w1 = (Inr txt, w1)"
    by (simp add: translate_content_def Let_def)
  then show ?thesis by simp
qed

text \<open>The statement at a first call that misses the empty cache and stores its result.\<close>

theorem translate_content_cached_witness:
  "translate_content stub_services ''Hello'' ''ur'' ''en''
     (snd (translate_content stub_services ''Hello'' ''ur'' ''en'' empty_world))
   = (Inr (Some ''ok''), snd (translate_content stub_services ''Hello'' ''ur'' ''en'' empty_world))
   \<and> chat_log (snd (translate_content stub_services ''Hello'' ''ur'' ''en'' empty_world))
       = [translation_request ''Urdu'' ''Hello'']"
proof -
  have e: "find (\<lambda>r. row_content_hash r = get_content_hash ''Hello'' ''ur'') (cache_rows empty_world) = None"
    by (simp add: empty_world_def)
  have q: "db_query stub_services (get_content_hash ''Hello'' ''ur'') = None"
    by (simp add: stub_services_def)
  have f: "fst (translate_content stub_services ''Hello'' ''ur'' ''en'' empty_world) = Inr (Some ''ok'')"
    by (simp add: translate_content_def e q Let_def) (simp add: stub_services_def)
  have h: "translate_content stub_services ''Hello'' ''ur'' ''en'' empty_world
      = (Inr (Some ''ok''), snd (translate_content stub_services ''Hello'' ''ur'' ''en'' empty_world))"
    by (rule prod_eqI) (simp_all add: f)
  have c: "chat_log (snd (translate_content stub_services ''Hello'' ''ur'' ''en'' empty_world))
       = [translation_request ''Urdu'' ''Hello'']"
    by (simp add: translate_content_def e q Let_def) (simp add: stub_services_def empty_world_def)
  from translate_content_cached[OF h q, of "''en''"] c show ?thesis by simp
qed

text \<open>
  C10. Two runs of \<open>translate_content\<close> that differ only in \<open>source_lang\<close>, from the same
  state and with the same provider and store, compute the same key and send the same
  request. Identical store behaviour is asked of the two rows that the runs try to insert
  only, which differ in the source-language column alone: if the store answers the commit
  of the one as it answers the commit of the other, the two runs return the same result,
  send the same requests, log the same errors, and leave cache rows that differ at most in
  the recorded source language.
\<close>

theorem translate_content_source_lang:
  assumes "\<And>x. chat_create env (length (chat_log w))
                  (translation_request
                     (if target_lang = ''en'' then ''English''
                      else if target_lang = ''ur'' then ''Urdu'' else target_lang) content) = Inr x
           \<Longrightarrow> db_commit env \<lparr>row_content_hash = get_content_hash content target_lang,
                               row_source_lang = s1, row_target_lang = target_lang,
                               row_translated_content = x\<rparr>
             = db_commit env \<lparr>row_content_hash = get_content_hash content target_lang,
                               row_source_lang = s2, row_target_lang = target_lang,
                               row_translated_content = x\<rparr>"
  shows "fst (translate_content env content target_lang s1 w)
           = fst (translate_content env content target_lang s2 w)
         \<and> chat_log (snd (translate_content env content target_lang s1 w))
           = chat_log (snd (translate_content env content target_lang s2 w))
         \<and> error_log (snd (translate_content env content target_lang s1 w))
           = error_log (snd (translate_content env content target_lang s2 w))
         \<and> map (\<lambda>r. r\<lparr>row_source_lang := s2\<rparr>)
               (cache_rows (snd (translate_content env content target_lang s1 w)))
           = map (\<lambda>r. r\<lparr>row_source_lang := s2\<rparr>)
               (cache_rows (snd (translate_content env content target_lang s2 w)))"
proof (cases "db_query env (get_content_hash content target_lang)")
  case (Some e)
  then show ?thesis by (simp add: translate_content_def Let_def)
next
  case q: None
  show ?thesis
  proof (cases "find (\<lambda>r. row_content_hash r = get_content_hash content target_lang) (cache_rows w)")
    case (Some cached)
    with q show ?thesis by (simp add: translate_content_def Let_def)
  next
    case None
    let ?req = "translation_request
                  (if target_lang = ''en'' then ''English''
                   else if target_lang = ''ur'' then ''Urdu'' else target_lang) content"
    show ?thesis
    proof (cases "chat_create env (length (chat_log w)) ?req")
      case (Inl e)
      with q None show ?thesis by (simp add: translate_content_def Let_def)
    next
      case (Inr x)
      note c = assms[OF Inr]
      show ?thesis
      proof (cases "db_commit env \<lparr>row_content_hash = get_content_hash content target_lang,
                                 row_source_lang = s2, row_target_lang = target_lang,
                                 row_translated_content = x\<rparr>")
        case None2: None
        with q None Inr c show ?thesis by (simp add: translate_content_def Let_def)
      next
        case (Some e)
        with q None Inr c show ?thesis by (simp add: translate_content_def Let_def)
      qed
    qed
  qed
qed

text \<open>
  The statement at the source languages \<open>en\<close> and \<open>de\<close>, with a store that enforces the
  column widths of the table: it accepts both rows.
\<close>

theorem translate_content_source_lang_witness:
  "db_commit varchar_store \<lparr>row_content_hash = get_content_hash ''Hello'' ''ur'',
                             row_source_lang = ''en'', row_target_lang = ''ur'',
                             row_translated_content = Some ''ok''\<rparr> = None
   \<and> db_commit varchar_store \<lparr>row_content_hash = get_content_hash ''Hello'' ''ur'',
                             row_source_lang = ''de'', row_target_lang = ''ur'',
                             row_translated_content = Some ''ok''\<rparr> = None
   \<and> fst (translate_content varchar_store ''Hello'' ''ur'' ''en'' empty_world)
     = fst (translate_content varchar_store ''Hello'' ''ur'' ''de'' empty_world)
   \<and> chat_log (snd (translate_content varchar_store ''Hello'' ''ur'' ''en'' empty_world))
     = chat_log (snd (translate_content varchar_store ''Hello'' ''ur'' ''de'' empty_world))
   \<and> error_log (snd (translate_content varchar_store ''Hello'' ''ur'' ''en'' empty_world))
     = error_log (snd (translate_content varchar_store ''Hello'' ''ur'' ''de'' empty_world))
   \<and> map (\<lambda>r. r\<lparr>row_source_lang := ''de''\<rparr>)
         (cache_rows (snd (translate_content varchar_store ''Hello'' ''ur'' ''en'' empty_world)))
     = map (\<lambda>r. r\<lparr>row_source_lang := ''de''\<rparr>)
         (cache_rows (snd (translate_content varchar_store ''Hello'' ''ur'' ''de'' empty_world)))"
proof -
  have h: "\<And>x. chat_create varchar_store (length (chat_log empty_world))
                  (translation_request
                     (if ''ur'' = ''en'' then ''English''
                      else if ''ur'' = ''ur'' then ''Urdu'' else ''ur'') ''Hello'') = Inr x
           \<Longrightarrow> db_commit varchar_store \<lparr>row_content_hash = get_content_hash ''Hello'' ''ur'',
                               row_source_lang = ''en'', row_target_lang = ''ur'',
                               row_translated_content = x\<rparr>
             = db_commit varchar_store \<lparr>row_content_hash = get_content_hash ''Hello'' ''ur'',
                               row_source_lang = ''de'', row_target_lang = ''ur'',
                               row_translated_content = x\<rparr>"
    by (simp add: varchar_store_def stub_services_def)
  have d: "db_commit varchar_store \<lparr>row_content_hash = get_content_hash ''Hello'' ''ur'',
                             row_source_lang = ''en'', row_target_lang = ''ur'',
                             row_translated_content = Some ''ok''\<rparr> = None"
          "db_commit varchar_store \<lparr>row_content_hash = get_content_hash ''Hello'' ''ur'',
                             row_source_lang = ''de'', row_target_lang = ''ur'',
                             row_translated_content = Some ''ok''\<rparr> = None"
    by (simp_all add: varchar_store_def stub_services_def)
  from translate_content_source_lang
         [of varchar_store empty_world "''ur''" "''Hello''" "''en''" "''de''", OF h] d
  show ?thesis by simp
qed

subsection \<open>Exercises\<close>

lemma suggest_exercises_never_raises:
  "\<exists>v. fst (suggest_exercises env content user_background num_exercises w) = Inr v"
proof -
  obtain r w1 where t: "suggest_exercises_try env content
      (case user_background ''software_background'' of None \<Rightarrow> ''beginner'' | Some b \<Rightarrow> b)
      num_exercises w = (r, w1)"
    by (cases "suggest_exercises_try env content
      (case user_background ''software_background'' of None \<Rightarrow> ''beginner'' | Some b \<Rightarrow> b)
      num_exercises w")
  show ?thesis
  proof (cases r)
    case (Inl e)
    with t show ?thesis by (simp add: suggest_exercises_def)
  next
    case (Inr v)
    with t show ?thesis by (simp add: suggest_exercises_def)
  qed
qed

lemma suggest_exercises_provider_failure:
  assumes "chat_create env (length (chat_log w))
             (exercises_request num_exercises
                (case user_background ''software_background'' of
                   None \<Rightarrow> ''beginner'' | Some b \<Rightarrow> b) content) = Inl e"
  shows "fst (suggest_exercises env content user_background num_exercises w) = Inr (JArr [])"
  using assms by (simp add: suggest_exercises_def suggest_exercises_try_def Let_def)

lemma suggest_exercises_parse_failure:
  assumes "chat_create env (length (chat_log w))
             (exercises_request num_exercises
                (case user_background ''software_background'' of
                   None \<Rightarrow> ''beginner'' | Some b \<Rightarrow> b) content) = Inr (Some text)"
    and "json_loads env text = Inl e"
  shows "fst (suggest_exercises env content user_background num_exercises w) = Inr (JArr [])"
  using assms by (simp add: suggest_exercises_def suggest_exercises_try_def Let_def)

text \<open>
  C9 (code defect). The claim is that \<open>suggest_exercises\<close> returns an empty list whenever
  the provider fails or returns output that cannot be read as the expected structure, and
  the function is documented to return a list of exercise dictionaries. A failed call and
  output that is no JSON do give the empty list (the two lemmas above), and no exception
  reaches the caller. But for the provider answer \<open>{"exercises": "oops"}\<close>, which is JSON
  of the wrong shape, \<open>result.get("exercises", [])\<close> is the string \<open>oops\<close>, \<open>len\<close> accepts it,
  and the function returns that string instead of an empty list.
\<close>

theorem suggest_exercises_wrong_shape:
  "chat_create wrong_shape_services 0 (exercises_request 3 ''beginner'' ''Servo motors'')
     = Inr (Some (''{'' @ dquote @ ''exercises'' @ dquote @ '': '' @ dquote @ ''oops'' @ dquote @ ''}''))
   \<and> fst (suggest_exercises wrong_shape_services ''Servo motors'' Map.empty 3 empty_world)
     = Inr (JStr ''oops'')
   \<and> fst (suggest_exercises wrong_shape_services ''Servo motors'' Map.empty 3 empty_world)
     \<noteq> Inr (JArr [])"
  by (simp add: suggest_exercises_def suggest_exercises_try_def exercises_of_def
                wrong_shape_services_def stub_services_def empty_world_def Let_def)

subsection \<open>Indexing a chapter\<close>

lemma rfind_from_replicate:
  "c \<noteq> CHR ''.'' \<Longrightarrow> rfind_from ''. '' (replicate n c) i best = best"
  by (induction n arbitrary: i) simp_all

lemma strip_replicate:
  "\<not> is_space c \<Longrightarrow> strip (replicate n c) = replicate n c"
  by (cases n) (simp_all add: strip_def replicate_append_same[symmetric] del: replicate_Suc)

lemma chunk_step_two_first:
  "chunk_step (replicate 1001 CHR ''a'') 1000 200 0 = (replicate 1000 CHR ''a'', 800)"
  by (simp add: chunk_step_def py_slice_def py_index_def Let_def rfind_def
                rfind_from_replicate strip_replicate is_space_def)

lemma chunk_step_two_second:
  "chunk_step (replicate 1001 CHR ''a'') 1000 200 800 = (replicate 201 CHR ''a'', 1001)"
  by (simp add: chunk_step_def py_slice_def py_index_def Let_def rfind_def
                rfind_from_replicate strip_replicate is_space_def)

lemma chunk_text_two:
  "chunk_text 3 two_chunk_content 1000 200
     = Some [replicate 1000 CHR ''a'', replicate 201 CHR ''a'']"
  by (simp add: chunk_text_def two_chunk_content_def numeral_3_eq_3
                chunk_step_two_first chunk_step_two_second)










subsection \<open>Point ids\<close>

lemma map_of_point_keys_upsert:
  "map_of (point_keys (upsert_point p c))
     = (map_of (point_keys c))(point_id p \<mapsto> payload_chapter_id p)"
  by (induction c) (auto simp add: point_keys_def fun_eq_iff)

lemma point_keys_upsert_same:
  "map_of (point_keys c) (point_id p) = Some (payload_chapter_id p) \<Longrightarrow>
   point_keys (upsert_point p c) = point_keys c"
  by (induction c) (auto simp add: point_keys_def split: if_splits)

lemma embed_chunk_ok_point:
  "embed_chunk env metadata n idx chunk w = (None, w') \<Longrightarrow>
   metadata ''chapter_id'' = Some cid \<Longrightarrow>
   \<exists>p. point_id p = content_id cid idx \<and> payload_chapter_id p = cid
       \<and> upsert_log w' = upsert_log w @ [p]
       \<and> collection w' = upsert_point p (collection w)"
  by (auto simp add: embed_chunk_def Let_def split: sum.splits option.splits)

lemma embed_chunks_ok_ids:
  "embed_chunks env metadata n idx xs w = (None, w') \<Longrightarrow>
   metadata ''chapter_id'' = Some cid \<Longrightarrow>
   (\<exists>ps. upsert_log w' = upsert_log w @ ps
         \<and> map point_id ps = map (content_id cid) [idx..<idx + length xs])
   \<and> (\<forall>j. idx \<le> j \<and> j < idx + length xs \<longrightarrow>
          map_of (point_keys (collection w')) (content_id cid j) = Some cid)
   \<and> (\<forall>k. map_of (point_keys (collection w)) k = Some cid \<longrightarrow>
          map_of (point_keys (collection w')) k = Some cid)"
proof (induction xs arbitrary: idx w)
  case Nil
  then show ?case by auto
next
  case (Cons c cs)
  obtain r w1 where s: "embed_chunk env metadata n idx c w = (r, w1)"
    by (cases "embed_chunk env metadata n idx c w")
  with Cons.prems(1) have r: "r = None"
    and rest: "embed_chunks env metadata n (Suc idx) cs w1 = (None, w')"
    by (auto split: option.splits)
  from embed_chunk_ok_point[OF s[unfolded r] Cons.prems(2)] obtain p where
    p: "point_id p = content_id cid idx" "payload_chapter_id p = cid"
       "upsert_log w1 = upsert_log w @ [p]"
       "collection w1 = upsert_point p (collection w)"
    by blast
  have m1: "map_of (point_keys (collection w1))
              = (map_of (point_keys (collection w)))(content_id cid idx \<mapsto> cid)"
    using p by (simp add: map_of_point_keys_upsert)
  from Cons.IH[OF rest Cons.prems(2)] obtain qs where
    ih1: "upsert_log w' = upsert_log w1 @ qs"
         "map point_id qs = map (content_id cid) [Suc idx..<Suc idx + length cs]"
    and ih3: "\<forall>j. Suc idx \<le> j \<and> j < Suc idx + length cs \<longrightarrow>
                map_of (point_keys (collection w')) (content_id cid j) = Some cid"
    and ih4: "\<forall>k. map_of (point_keys (collection w1)) k = Some cid \<longrightarrow>
                map_of (point_keys (collection w')) k = Some cid"
    by blast
  have u: "upsert_log w' = upsert_log w @ (p # qs)" using ih1 p(3) by simp
  have "map point_id (p # qs)
          = content_id cid idx # map (content_id cid) [Suc idx..<Suc idx + length cs]"
    using ih1 p(1) by simp
  also have "\<dots> = map (content_id cid) [idx..<idx + length (c # cs)]"
    by (simp add: upt_conv_Cons del: upt_Suc)
  finally have g1: "\<exists>ps. upsert_log w' = upsert_log w @ ps
         \<and> map point_id ps = map (content_id cid) [idx..<idx + length (c # cs)]"
    using u by blast
  have here: "map_of (point_keys (collection w')) (content_id cid idx) = Some cid"
    using ih4 m1 by simp
  have g3: "\<forall>j. idx \<le> j \<and> j < idx + length (c # cs) \<longrightarrow>
              map_of (point_keys (collection w')) (content_id cid j) = Some cid"
  proof (intro allI impI)
    fix j assume j: "idx \<le> j \<and> j < idx + length (c # cs)"
    show "map_of (point_keys (collection w')) (content_id cid j) = Some cid"
    proof (cases "j = idx")
      case True
      with here show ?thesis by simp
    next
      case False
      with j have "Suc idx \<le> j \<and> j < Suc idx + length cs" by simp
      with ih3 show ?thesis by blast
    qed
  qed
  have g4: "\<forall>k. map_of (point_keys (collection w)) k = Some cid \<longrightarrow>
              map_of (point_keys (collection w')) k = Some cid"
    using ih4 m1 by simp
  from g1 g3 g4 show ?case by blast
qed

lemma embed_chunks_ok_same:
  "embed_chunks env metadata n idx xs w = (None, w') \<Longrightarrow>
   metadata ''chapter_id'' = Some cid \<Longrightarrow>
   (\<forall>j. idx \<le> j \<and> j < idx + length xs \<longrightarrow>
        map_of (point_keys (collection w)) (content_id cid j) = Some cid) \<Longrightarrow>
   point_keys (collection w') = point_keys (collection w)"
proof (induction xs arbitrary: idx w)
  case Nil
  then show ?case by simp
next
  case (Cons c cs)
  obtain r w1 where s: "embed_chunk env metadata n idx c w = (r, w1)"
    by (cases "embed_chunk env metadata n idx c w")
  with Cons.prems(1) have r: "r = None"
    and rest: "embed_chunks env metadata n (Suc idx) cs w1 = (None, w')"
    by (auto split: option.splits)
  from embed_chunk_ok_point[OF s[unfolded r] Cons.prems(2)] obtain p where
    p: "point_id p = content_id cid idx" "payload_chapter_id p = cid"
       "collection w1 = upsert_point p (collection w)"
    by blast
  from Cons.prems(3) have "map_of (point_keys (collection w)) (content_id cid idx) = Some cid"
    by simp
  with p have k1: "point_keys (collection w1) = point_keys (collection w)"
    by (simp add: point_keys_upsert_same)
  have "\<forall>j. Suc idx \<le> j \<and> j < Suc idx + length cs \<longrightarrow>
          map_of (point_keys (collection w1)) (content_id cid j) = Some cid"
    using Cons.prems(3) k1 by simp
  from Cons.IH[OF rest Cons.prems(2) this] k1 show ?case by simp
qed

lemma embed_content_ok_run:
  "embed_content fuel env content metadata w = Some (Inr n, w1) \<Longrightarrow>
   \<exists>chunks. chunk_text fuel content 1000 200 = Some chunks \<and> n = length chunks
     \<and> embed_chunks env metadata (length chunks) 0 chunks w = (None, w1)"
  by (auto simp add: embed_content_def split: option.splits prod.splits)

lemma embed_chunks_stub:
  "\<exists>w'. embed_chunks stub_services intro_metadata n idx xs w = (None, w')"
proof (induction xs arbitrary: idx w)
  case Nil
  then show ?case by simp
next
  case (Cons c cs)
  have "\<exists>w1. embed_chunk stub_services intro_metadata n idx c w = (None, w1)"
    by (simp add: embed_chunk_def stub_services_def intro_metadata_def Let_def)
  then obtain w1 where "embed_chunk stub_services intro_metadata n idx c w = (None, w1)" ..
  with Cons.IH[of "Suc idx" w1] show ?case by simp
qed

lemma embed_content_stub:
  "chunk_text fuel content 1000 200 = Some chunks \<Longrightarrow>
   \<exists>w'. embed_content fuel stub_services content intro_metadata w
          = Some (Inr (length chunks), w')"
  using embed_chunks_stub[of "length chunks" 0 chunks w]
  by (auto simp add: embed_content_def)

text \<open>
  C4 (amended). In \<open>EmbeddingService.embed_content\<close> the id of the point of chunk \<open>idx\<close> is
  \<open>content_id chapter_id idx\<close>, a function of the chapter id and the chunk index only. So
  when a chapter is indexed twice with the same content, the second run sends the same ids
  and overwrites: the collection keeps the same ids, each with the same chapter, hence the
  same number of points, in all and for that chapter.
\<close>

theorem embed_content_reindex:
  assumes "metadata ''chapter_id'' = Some cid"
    and "embed_content fuel env content metadata w = Some (Inr n, w1)"
    and "embed_content fuel env' content metadata w1 = Some (Inr n', w2)"
  shows "map point_id (drop (length (upsert_log w)) (upsert_log w1))
           = map (content_id cid) [0..<n]
         \<and> map point_id (drop (length (upsert_log w1)) (upsert_log w2))
           = map (content_id cid) [0..<n]
         \<and> point_keys (collection w2) = point_keys (collection w1)
         \<and> length (collection w2) = length (collection w1)
         \<and> length (filter (\<lambda>q. payload_chapter_id q = cid) (collection w2))
           = length (filter (\<lambda>q. payload_chapter_id q = cid) (collection w1))"
proof -
  from embed_content_ok_run[OF assms(2)] obtain chunks where
    c: "chunk_text fuel content 1000 200 = Some chunks" "n = length chunks"
    and r1: "embed_chunks env metadata (length chunks) 0 chunks w = (None, w1)"
    by blast
  from embed_content_ok_run[OF assms(3)] c have
    r2: "embed_chunks env' metadata (length chunks) 0 chunks w1 = (None, w2)"
    by auto
  from embed_chunks_ok_ids[OF r1 assms(1)] obtain ps where
    i1: "upsert_log w1 = upsert_log w @ ps" "map point_id ps = map (content_id cid) [0..<n]"
    and own: "\<forall>j. 0 \<le> j \<and> j < 0 + length chunks \<longrightarrow>
                map_of (point_keys (collection w1)) (content_id cid j) = Some cid"
    using c(2) by auto
  from embed_chunks_ok_ids[OF r2 assms(1)] obtain qs where
    i2: "upsert_log w2 = upsert_log w1 @ qs" "map point_id qs = map (content_id cid) [0..<n]"
    using c(2) by auto
  from embed_chunks_ok_same[OF r2 assms(1) own] have
    k: "point_keys (collection w2) = point_keys (collection w1)" .
  have len: "length (collection v) = length (point_keys (collection v))" for v :: world
    by (simp add: point_keys_def)
  have cnt: "length (filter (\<lambda>q. payload_chapter_id q = cid) (collection v))
               = length (filter (\<lambda>k. snd k = cid) (point_keys (collection v)))" for v :: world
    by (simp add: point_keys_def filter_map comp_def)
  from i1 i2 k len[of w1] len[of w2] cnt[of w1] cnt[of w2] show ?thesis by simp
qed

text \<open>
  The statement at a chapter of two chunks, indexed twice into an empty collection.
\<close>

theorem embed_content_reindex_witness:
  "intro_metadata ''chapter_id'' = Some ''intro''
   \<and> (\<exists>w1 w2. embed_content 3 stub_services two_chunk_content intro_metadata empty_world
                  = Some (Inr 2, w1)
              \<and> embed_content 3 stub_services two_chunk_content intro_metadata w1
                  = Some (Inr 2, w2)
              \<and> map point_id (upsert_log w1)
                  = [content_id ''intro'' 0, content_id ''intro'' 1]
              \<and> map point_id (drop (length (upsert_log w1)) (upsert_log w2))
                  = [content_id ''intro'' 0, content_id ''intro'' 1]
              \<and> length (collection w2) = length (collection w1))"
proof -
  have md: "intro_metadata ''chapter_id'' = Some ''intro''"
    by (simp add: intro_metadata_def)
  from embed_content_stub[OF chunk_text_two, of empty_world] obtain w1 where
    r1: "embed_content 3 stub_services two_chunk_content intro_metadata empty_world
           = Some (Inr 2, w1)"
    by (auto simp add: numeral_2_eq_2)
  from embed_content_stub[OF chunk_text_two, of w1] obtain w2 where
    r2: "embed_content 3 stub_services two_chunk_content intro_metadata w1 = Some (Inr 2, w2)"
    by (auto simp add: numeral_2_eq_2)
  have e: "upsert_log empty_world = []" by (simp add: empty_world_def)
  have n: "map (content_id ''intro'') [0..<2]
             = [content_id ''intro'' 0, content_id ''intro'' 1]"
    by (simp add: upt_conv_Cons)
  from embed_content_reindex[OF md r1 r2] e n
  have "map point_id (upsert_log w1) = [content_id ''intro'' 0, content_id ''intro'' 1]
        \<and> map point_id (drop (length (upsert_log w1)) (upsert_log w2))
            = [content_id ''intro'' 0, content_id ''intro'' 1]
        \<and> length (collection w2) = length (collection w1)"
    by simp
  with r1 r2 have
    "embed_content 3 stub_services two_chunk_content intro_metadata empty_world
       = Some (Inr 2, w1)
     \<and> embed_content 3 stub_services two_chunk_content intro_metadata w1 = Some (Inr 2, w2)
     \<and> map point_id (upsert_log w1) = [content_id ''intro'' 0, content_id ''intro'' 1]
     \<and> map point_id (drop (length (upsert_log w1)) (upsert_log w2))
         = [content_id ''intro'' 0, content_id ''intro'' 1]
     \<and> length (collection w2) = length (collection w1)"
    by (simp only: simp_thms)
  then show ?thesis
    by (intro conjI exI[where x = w1] exI[where x = w2]) (simp_all only: md simp_thms)
qed

text \<open>
  The claim as stated, that every indexing path derives the point id from the document and
  the chunk index, fails for the batch script \<open>embed_content.py\<close>: it draws a random id for
  every point, so two runs over the same chunk of the same file store it under two
  different ids.
\<close>

theorem embed_documents_random_ids_counterexample:
  "map (\<lambda>p. (sp_file_path p, sp_chunk_index p))
       (embed_documents stub_services (\<lambda>n. None) uuid_run1 [servo_chunk])
     = [(''docs/intro.md'', 0)]
   \<and> map (\<lambda>p. (sp_file_path p, sp_chunk_index p))
       (embed_documents stub_services (\<lambda>n. None) uuid_run2 [servo_chunk])
     = [(''docs/intro.md'', 0)]
   \<and> map sp_id (embed_documents stub_services (\<lambda>n. None) uuid_run1 [servo_chunk])
     \<noteq> map sp_id (embed_documents stub_services (\<lambda>n. None) uuid_run2 [servo_chunk])"
  by (simp add: embed_documents_def servo_chunk_def stub_services_def
                uuid_run1_def uuid_run2_def Let_def)

end
